theory Spec2Isabelle
  imports Complex_Main
begin

section \<open>Data model\<close>

text \<open>
  The embedding follows \<^verbatim>\<open>app.js\<close> (the Express handlers, held in
  \<^verbatim>\<open>src/models/Coupon.js\<close> after the Coupon schema) and
  \<^verbatim>\<open>src/models/Order.js\<close>.

  Conventions. An ObjectId is the string of its 24 hexadecimal digits in lower case. A
  JavaScript Number that counts
  units (\<^verbatim>\<open>stock\<close>, \<^verbatim>\<open>quantity\<close>) is an \<open>int\<close>; a Number that
  holds money or a percentage (\<^verbatim>\<open>price\<close>, \<^verbatim>\<open>discount\<close>,
  \<^verbatim>\<open>total\<close>) is an exact \<open>rat\<close>, so the rounding of IEEE doubles is not part of
  the model. One request is handled at a time: a handler takes the stores and returns them
  updated, together with its response.
\<close>

type_synonym object_id = string

text \<open>
  Modelled from the spec: the Product schema (\<^verbatim>\<open>models/Product\<close>), which the
  handlers require. The fields are those the handlers read and write: \<^verbatim>\<open>name\<close>,
  \<^verbatim>\<open>description\<close>, \<^verbatim>\<open>price\<close>, \<^verbatim>\<open>stock\<close>.
\<close>

record product =
  name :: string
  description :: string
  price :: rat
  stock :: int

text \<open>\<^verbatim>\<open>couponSchema\<close>: \<^verbatim>\<open>code: { type: String, unique: true }, discount: Number\<close>.\<close>

record coupon =
  code :: string
  discount :: rat

text \<open>An element of \<^verbatim>\<open>req.body.products\<close> and of \<^verbatim>\<open>orderSchema.products\<close>.\<close>

record line_item =
  productId :: object_id
  quantity :: int

text \<open>
  \<^verbatim>\<open>orderSchema\<close>. Its paths are \<^verbatim>\<open>user\<close>, \<^verbatim>\<open>products\<close>,
  \<^verbatim>\<open>total\<close>, \<^verbatim>\<open>coupon\<close> and \<^verbatim>\<open>createdAt\<close> (default
  \<^verbatim>\<open>Date.now\<close>); \<open>oid\<close> is the document's \<^verbatim>\<open>_id\<close>. A path that was never
  set is \<open>None\<close>.
\<close>

record order =
  oid :: object_id
  user :: "object_id option"
  products :: "line_item list"
  total :: "rat option"
  coupon :: "string option"
  createdAt :: nat

text \<open>The values that occur in the object literal handed to \<^verbatim>\<open>new Order({...})\<close>.\<close>

datatype js_value = Str string | Num rat | Items "line_item list"

text \<open>
  \<^verbatim>\<open>new Order(obj)\<close>: the document takes, from \<open>obj\<close>, the keys that are paths of
  \<^verbatim>\<open>orderSchema\<close>; a key that is not a path of the schema is not stored. The
  \<^verbatim>\<open>_id\<close> and \<^verbatim>\<open>Date.now()\<close> that the constructor draws are the
  arguments \<open>i\<close> and \<open>now\<close>.
\<close>

definition new_Order :: "object_id \<Rightarrow> nat \<Rightarrow> (string \<times> js_value) list \<Rightarrow> order" where
  "new_Order i now obj =
     \<lparr> oid = i,
       user = (case map_of obj ''user'' of Some (Str u) \<Rightarrow> Some u | _ \<Rightarrow> None),
       products = (case map_of obj ''products'' of Some (Items xs) \<Rightarrow> xs | _ \<Rightarrow> []),
       total = (case map_of obj ''total'' of Some (Num t) \<Rightarrow> Some t | _ \<Rightarrow> None),
       coupon = (case map_of obj ''coupon'' of Some (Str c) \<Rightarrow> Some c | _ \<Rightarrow> None),
       createdAt = now \<rparr>"

text \<open>
  Reading a reference-valued property of an Order document, as in
  \<^verbatim>\<open>order.userId\<close>. The schema gives a document the reference paths
  \<^verbatim>\<open>_id\<close> and \<^verbatim>\<open>user\<close>; any other name read as a reference is
  \<^verbatim>\<open>undefined\<close>. \<open>String_js\<close> is JavaScript's \<^verbatim>\<open>String(v)\<close> on such a
  value.
\<close>

datatype js_ref = Undefined | ObjectId object_id

definition Order_ref :: "order \<Rightarrow> string \<Rightarrow> js_ref" where
  "Order_ref doc k =
     (if k = ''_id'' then ObjectId (oid doc)
      else if k = ''user'' then (case user doc of None \<Rightarrow> Undefined | Some u \<Rightarrow> ObjectId u)
      else Undefined)"

fun String_js :: "js_ref \<Rightarrow> string" where
  "String_js Undefined = ''undefined''"
| "String_js (ObjectId h) = h"

subsection \<open>Stores, notifications and responses\<close>

text \<open>
  What a handler does that can be seen from outside, in program order:
  \<^verbatim>\<open>emitStockUpdate(productId, newStock)\<close> and \<^verbatim>\<open>order.save()\<close>.
\<close>

datatype event = StockUpdate object_id int | OrderSaved object_id

record shop =
  Products :: "object_id \<rightharpoonup> product"
  Coupons :: "coupon list"
  Orders :: "order list"
  trace :: "event list"

datatype js_exception = ReferenceError string | CastError string

datatype body =
    Error string
  | OrderPlaced order
  | OrderList "order list"
  | ProductBody product

text \<open>
  \<open>Json n b\<close> is \<^verbatim>\<open>res.status(n).json(b)\<close>; \<open>Pdf doc\<close> is the invoice of
  \<open>doc\<close> piped to the response under the header
  \<^verbatim>\<open>Content-Type: application/pdf\<close>; \<open>Rejected e\<close> is a handler whose promise
  rejects with \<open>e\<close>, so that no response is sent.
\<close>

datatype response = Json nat body | Pdf order | Rejected js_exception

fun content_type :: "response \<Rightarrow> string option" where
  "content_type (Json n b) = Some ''application/json''"
| "content_type (Pdf doc) = Some ''application/pdf''"
| "content_type (Rejected e) = None"

text \<open>
  The model identifiers that \<^verbatim>\<open>app.js\<close> binds with \<^verbatim>\<open>require\<close>:
  \<^verbatim>\<open>User\<close>, \<^verbatim>\<open>Product\<close>, \<^verbatim>\<open>Order\<close>, \<^verbatim>\<open>Category\<close>.
  \<^verbatim>\<open>./models/Coupon\<close> is never required, although the handlers name
  \<^verbatim>\<open>Coupon\<close>. The handlers take the bound identifiers as their first argument.
\<close>

definition app_js :: "string list" where
  "app_js = [''User'', ''Product'', ''Order'', ''Category'']"

section \<open>Handlers\<close>

subsection \<open>PUT /products/:id/stock\<close>

definition put_product_stock :: "shop \<Rightarrow> object_id \<Rightarrow> int \<Rightarrow> shop \<times> response" where
  "put_product_stock s i new_stock =
     (case Products s i of
        None \<Rightarrow> (s, Json 404 (Error ''Product not found''))
      | Some prd \<Rightarrow>
          (let prd' = prd\<lparr>stock := new_stock\<rparr>
           in (s\<lparr>Products := (Products s)(i \<mapsto> prd'),
                 trace := trace s @ [StockUpdate i new_stock]\<rparr>,
               Json 200 (ProductBody prd'))))"

subsection \<open>POST /orders\<close>

text \<open>
  The loop \<^verbatim>\<open>for (let item of products)\<close>. The second component is the running
  \<^verbatim>\<open>total\<close>, or \<open>None\<close> when the loop left the handler through
  \<^verbatim>\<open>return res.status(400)\<close>. The \<^verbatim>\<open>productId\<close> of a line item is taken
  to be an ObjectId: the failure of \<^verbatim>\<open>Product.findById\<close> to cast a string that is
  none is not a branch of the loop. The total is accumulated in exact rationals.
\<close>

fun for_items :: "shop \<Rightarrow> rat \<Rightarrow> line_item list \<Rightarrow> shop \<times> rat option" where
  "for_items s tot [] = (s, Some tot)"
| "for_items s tot (item # rest) =
     (case Products s (productId item) of
        None \<Rightarrow> (s, None)
      | Some prd \<Rightarrow>
          if stock prd < quantity item then (s, None)
          else
            (let prd' = prd\<lparr>stock := stock prd - quantity item\<rparr>;
                 s1 = s\<lparr>Products := (Products s)(productId item \<mapsto> prd')\<rparr>;
                 s2 = s1\<lparr>trace := trace s1 @ [StockUpdate (productId item) (stock prd')]\<rparr>
             in for_items s2 (tot + price prd' * of_int (quantity item)) rest))"

text \<open>
  \<^verbatim>\<open>if (couponCode) {...}\<close>: an absent code and the empty string are falsy. The
  result is the pair of \<^verbatim>\<open>total\<close> and \<^verbatim>\<open>couponUsed\<close>. Evaluating
  \<^verbatim>\<open>Coupon.findOne\<close> throws a ReferenceError where \<^verbatim>\<open>Coupon\<close> is not
  bound.
\<close>

definition apply_coupon ::
  "string list \<Rightarrow> shop \<Rightarrow> string option \<Rightarrow> rat \<Rightarrow> js_exception + rat \<times> string" where
  "apply_coupon scope s couponCode tot =
     (case couponCode of
        None \<Rightarrow> Inr (tot, '''')
      | Some cc \<Rightarrow>
          if cc = '''' then Inr (tot, '''')
          else if ''Coupon'' \<notin> set scope then Inl (ReferenceError ''Coupon'')
          else
            (case find (\<lambda>c. code c = cc) (Coupons s) of
               None \<Rightarrow> Inr (tot, '''')
             | Some cpn \<Rightarrow> Inr (tot - (tot * discount cpn) / 100, code cpn)))"

definition post_orders ::
  "string list \<Rightarrow> shop \<Rightarrow> object_id \<Rightarrow> nat \<Rightarrow> object_id \<Rightarrow> line_item list \<Rightarrow> string option
     \<Rightarrow> shop \<times> response" where
  "post_orders scope s i now uid req_products couponCode =
     (case for_items s 0 req_products of
        (s1, None) \<Rightarrow> (s1, Json 400 (Error ''Insufficient stock or invalid product''))
      | (s1, Some tot) \<Rightarrow>
          (case apply_coupon scope s1 couponCode tot of
             Inl e \<Rightarrow> (s1, Rejected e)
           | Inr (tot', couponUsed) \<Rightarrow>
               (let doc = new_Order i now
                            [(''userId'', Str uid), (''products'', Items req_products),
                             (''total'', Num tot'), (''coupon'', Str couponUsed)]
                in (s1\<lparr>Orders := Orders s1 @ [doc], trace := trace s1 @ [OrderSaved i]\<rparr>,
                    Json 200 (OrderPlaced doc)))))"

subsection \<open>GET /orders\<close>

text \<open>
  \<^verbatim>\<open>Order.find({ userId: req.user.id })\<close>. \<^verbatim>\<open>userId\<close> is not a path of
  \<^verbatim>\<open>orderSchema\<close>. With \<^verbatim>\<open>strictQuery\<close> off the condition reaches the
  store as written, and a stored Order has no such field to match; with
  \<^verbatim>\<open>strictQuery\<close> on the condition is dropped and every order matches.
\<close>

definition get_orders :: "bool \<Rightarrow> shop \<Rightarrow> object_id \<Rightarrow> response" where
  "get_orders strictQuery s uid =
     Json 200 (OrderList
       (if strictQuery then Orders s
        else filter (\<lambda>doc. Order_ref doc ''userId'' = ObjectId uid) (Orders s)))"

subsection \<open>GET /orders/:id/invoice\<close>

text \<open>
  The cast that \<^verbatim>\<open>Order.findById(req.params.id)\<close> applies to its argument before
  the store is asked. A string of 24 hexadecimal digits is an ObjectId, in either case of
  the digits; the older drivers also take any string of 12 bytes for the 12 bytes of an
  ObjectId (\<open>any12\<close>, for strings of ASCII characters); for every other string the cast
  fails and \<^verbatim>\<open>findById\<close> rejects with a CastError. The handler has no
  \<^verbatim>\<open>try\<close>, so its promise rejects with that error before the ownership test is
  reached.
\<close>

definition is_hex :: "char \<Rightarrow> bool" where
  "is_hex c = (c \<in> set ''0123456789abcdefABCDEF'')"

definition lower_hex :: "char \<Rightarrow> char" where
  "lower_hex c = (case map_of (zip ''ABCDEF'' ''abcdef'') c of None \<Rightarrow> c | Some d \<Rightarrow> d)"

definition hex_byte :: "char \<Rightarrow> string" where
  "hex_byte c =
     [''0123456789abcdef'' ! ((of_char c :: nat) div 16),
      ''0123456789abcdef'' ! ((of_char c :: nat) mod 16)]"

definition cast_ObjectId :: "bool \<Rightarrow> string \<Rightarrow> object_id option" where
  "cast_ObjectId any12 v =
     (if length v = 24 \<and> list_all is_hex v then Some (map lower_hex v)
      else if any12 \<and> length v = 12 then Some (concat (map hex_byte v))
      else None)"

definition get_invoice :: "bool \<Rightarrow> shop \<Rightarrow> string \<Rightarrow> object_id \<Rightarrow> response" where
  "get_invoice any12 s i uid =
     (case cast_ObjectId any12 i of
        None \<Rightarrow> Rejected (CastError i)
      | Some k \<Rightarrow>
          (case find (\<lambda>doc. oid doc = k) (Orders s) of
             None \<Rightarrow> Json 403 (Error ''Access denied'')
           | Some doc \<Rightarrow>
               if String_js (Order_ref doc ''userId'') \<noteq> uid
               then Json 403 (Error ''Access denied'')
               else Pdf doc))"

section \<open>Notions used to state the properties\<close>

text \<open>
  The quantity that the line items \<open>items\<close> order of product \<open>p\<close>; the stock and the
  price of a product in a catalog; the sum of price times quantity over the line items;
  the \<open>k\<close>-th notification of a call (the product of the \<open>k\<close>-th line item, with the
  stock that is left once the line items up to it have been served); the handler's
  condition \<^verbatim>\<open>!prod || prod.stock < item.quantity\<close> that rejects a line item; and a
  product record after the ordered quantity has been taken
  from its stock.
\<close>

definition ordered_qty :: "line_item list \<Rightarrow> object_id \<Rightarrow> int" where
  "ordered_qty items p = sum_list (map quantity (filter (\<lambda>it. productId it = p) items))"

definition stock_of :: "(object_id \<rightharpoonup> product) \<Rightarrow> object_id \<Rightarrow> int" where
  "stock_of cat p = (case cat p of None \<Rightarrow> 0 | Some prd \<Rightarrow> stock prd)"

definition price_of :: "(object_id \<rightharpoonup> product) \<Rightarrow> object_id \<Rightarrow> rat" where
  "price_of cat p = (case cat p of None \<Rightarrow> 0 | Some prd \<Rightarrow> price prd)"

definition subtotal :: "(object_id \<rightharpoonup> product) \<Rightarrow> line_item list \<Rightarrow> rat" where
  "subtotal cat items =
     sum_list (map (\<lambda>it. price_of cat (productId it) * of_int (quantity it)) items)"

definition notification :: "(object_id \<rightharpoonup> product) \<Rightarrow> line_item list \<Rightarrow> nat \<Rightarrow> event" where
  "notification cat items k =
     StockUpdate (productId (items ! k))
       (stock_of cat (productId (items ! k)) - ordered_qty (take (Suc k) items) (productId (items ! k)))"

definition notifications :: "(object_id \<rightharpoonup> product) \<Rightarrow> line_item list \<Rightarrow> event list" where
  "notifications cat items = map (notification cat items) [0..<length items]"


definition decremented :: "line_item list \<Rightarrow> object_id \<Rightarrow> product \<Rightarrow> product" where
  "decremented items p prd = prd\<lparr>stock := stock prd - ordered_qty items p\<rparr>"

text \<open>The invariant of the catalog: no product has negative stock.\<close>

definition stock_nonneg :: "shop \<Rightarrow> bool" where
  "stock_nonneg s = (\<forall>p prd. Products s p = Some prd \<longrightarrow> 0 \<le> stock prd)"

subsection \<open>Example stores\<close>

text \<open>The ObjectIds of the examples: three products, four orders, two users.\<close>

abbreviation prodA :: object_id where "prodA \<equiv> ''aaaaaaaaaaaaaaaaaaaaaaaa''"
abbreviation prodB :: object_id where "prodB \<equiv> ''bbbbbbbbbbbbbbbbbbbbbbbb''"
abbreviation order1 :: object_id where "order1 \<equiv> ''000000000000000000000001''"
abbreviation order2 :: object_id where "order2 \<equiv> ''000000000000000000000002''"
abbreviation order7 :: object_id where "order7 \<equiv> ''000000000000000000000007''"
abbreviation order9 :: object_id where "order9 \<equiv> ''000000000000000000000009''"
abbreviation user1 :: object_id where "user1 \<equiv> ''eeeeeeeeeeeeeeeeeeeeeee1''"
abbreviation user2 :: object_id where "user2 \<equiv> ''eeeeeeeeeeeeeeeeeeeeeee2''"

definition item :: "object_id \<Rightarrow> int \<Rightarrow> line_item" where
  "item p q = \<lparr>productId = p, quantity = q\<rparr>"

definition shop0 :: shop where
  "shop0 =
     \<lparr> Products =
         [prodA \<mapsto> \<lparr>name = ''A'', description = '''', price = 100, stock = 5\<rparr>,
          prodB \<mapsto> \<lparr>name = ''B'', description = '''', price = 40, stock = 0\<rparr>],
       Coupons = [\<lparr>code = ''SAVE10'', discount = 10\<rparr>],
       Orders = [],
       trace = [] \<rparr>"

definition shop2 :: shop where
  "shop2 =
     \<lparr> Products = [prodA \<mapsto> \<lparr>name = ''A'', description = '''', price = 100, stock = 2\<rparr>],
       Coupons = [],
       Orders =
         [\<lparr>oid = order7, user = Some user1, products = [item prodA 1], total = Some 100,
           coupon = Some '''', createdAt = 0\<rparr>],
       trace = [] \<rparr>"


section \<open>The loop over the line items\<close>

text \<open>
  The list equations of the notions above, where the first line item names a product of
  the catalog.
\<close>

lemma ordered_qty_Nil [simp]: "ordered_qty [] p = 0"
  by (simp add: ordered_qty_def)

lemma ordered_qty_Cons:
  "ordered_qty (it # items) p = (if productId it = p then quantity it else 0) + ordered_qty items p"
  by (simp add: ordered_qty_def)

lemma notifications_Nil [simp]: "notifications cat [] = []"
  by (simp add: notifications_def)

lemma notifications_Cons:
  assumes "cat (productId it) = Some prd"
  shows "notifications cat (it # items) =
           StockUpdate (productId it) (stock prd - quantity it)
             # notifications (cat(productId it \<mapsto> prd\<lparr>stock := stock prd - quantity it\<rparr>)) items"
proof -
  have upt: "[0..<length (it # items)] = 0 # map Suc [0..<length items]"
    by (simp add: upt_conv_Cons map_Suc_upt del: upt_Suc)
  have hd: "notification cat (it # items) 0 = StockUpdate (productId it) (stock prd - quantity it)"
    using assms by (simp add: notification_def stock_of_def ordered_qty_Cons)
  have tl: "notification cat (it # items) (Suc k) =
              notification (cat(productId it \<mapsto> prd\<lparr>stock := stock prd - quantity it\<rparr>)) items k" for k
    using assms by (simp add: notification_def stock_of_def ordered_qty_Cons)
  show ?thesis
    unfolding notifications_def upt by (simp add: hd tl comp_def)
qed

lemma subtotal_Cons:
  assumes "cat (productId it) = Some prd"
  shows "subtotal cat (it # items) =
           price prd * of_int (quantity it)
             + subtotal (cat(productId it \<mapsto> prd\<lparr>stock := stock prd - quantity it\<rparr>)) items"
proof -
  have "price_of (cat(productId it \<mapsto> prd\<lparr>stock := stock prd - quantity it\<rparr>)) p = price_of cat p" for p
    using assms by (simp add: price_of_def)
  then show ?thesis using assms by (simp add: subtotal_def price_of_def)
qed

text \<open>
  A loop that runs to its end leaves every product with its stock lowered by the quantity
  ordered of it, touches neither the coupons nor the orders, has emitted the notifications
  of all line items and has added price times quantity of each to the running total.
\<close>

lemma for_items_ok:
  "for_items s t items = (s1, Some t1) \<Longrightarrow>
     Products s1 = (\<lambda>p. map_option (decremented items p) (Products s p))
     \<and> Coupons s1 = Coupons s \<and> Orders s1 = Orders s
     \<and> trace s1 = trace s @ notifications (Products s) items
     \<and> t1 = t + subtotal (Products s) items"
proof (induction items arbitrary: s t)
  case Nil
  then show ?case by (auto simp: decremented_def subtotal_def option.map_ident)
next
  case (Cons it items)
  from Cons.prems obtain prd where prd: "Products s (productId it) = Some prd"
    by (auto split: option.splits)
  from Cons.prems prd have ok: "\<not> stock prd < quantity it"
    by (auto split: if_splits)
  let ?prd' = "prd\<lparr>stock := stock prd - quantity it\<rparr>"
  let ?s2 = "s\<lparr>Products := (Products s)(productId it \<mapsto> ?prd'),
               trace := trace s @ [StockUpdate (productId it) (stock prd - quantity it)]\<rparr>"
  from Cons.prems prd ok
  have run: "for_items ?s2 (t + price prd * of_int (quantity it)) items = (s1, Some t1)"
    by (simp add: Let_def)
  note ih = Cons.IH [OF run]
  have Ps2: "Products ?s2 = (Products s)(productId it \<mapsto> ?prd')" by simp
  have Ts2: "trace ?s2 = trace s @ [StockUpdate (productId it) (stock prd - quantity it)]" by simp
  note ihP = ih [THEN conjunct1]
  note ihT = ih [THEN conjunct2, THEN conjunct2, THEN conjunct2, THEN conjunct1]
  note ihS = ih [THEN conjunct2, THEN conjunct2, THEN conjunct2, THEN conjunct2]
  have P: "Products s1 = (\<lambda>p. map_option (decremented (it # items) p) (Products s p))"
  proof
    fix p
    show "Products s1 p = map_option (decremented (it # items) p) (Products s p)"
      using prd by (cases "Products s p") (auto simp: ihP [unfolded Ps2] decremented_def ordered_qty_Cons)
  qed
  have T: "trace s1 = trace s @ notifications (Products s) (it # items)"
    using ihT unfolding Ps2 Ts2 notifications_Cons [of "Products s" it prd, OF prd] by (simp del: fun_upd_apply)
  have S: "t1 = t + subtotal (Products s) (it # items)"
    using ihS unfolding Ps2 subtotal_Cons [of "Products s" it prd, OF prd] by (simp del: fun_upd_apply)
  show ?case using P T S ih by simp
qed



section \<open>The scenario of an order beyond the stock\<close>

text \<open>
  Claim C8. An order of one line item that asks for 5 units of a product whose stock is 2
  is answered with status 400 and the error \<^verbatim>\<open>Insufficient stock or invalid product\<close>,
  and the stores come back as they were: the stock is still 2 and no Order is persisted.
  This holds for every coupon code, user and set of bound identifiers.
\<close>

theorem post_orders_stock_2_quantity_5:
  assumes "Products s a = Some prd" and "stock prd = 2"
  shows "post_orders scope s i now uid [\<lparr>productId = a, quantity = 5\<rparr>] couponCode
           = (s, Json 400 (Error ''Insufficient stock or invalid product''))"
  using assms by (simp add: post_orders_def)

theorem post_orders_stock_2_quantity_5_witness:
  "Products shop2 prodA = Some \<lparr>name = ''A'', description = '''', price = 100, stock = 2\<rparr>
   \<and> post_orders app_js shop2 order1 0 user1 [\<lparr>productId = prodA, quantity = 5\<rparr>] None
       = (shop2, Json 400 (Error ''Insufficient stock or invalid product''))
   \<and> map_option stock (Products (fst (post_orders app_js shop2 order1 0 user1 [\<lparr>productId = prodA, quantity = 5\<rparr>] None)) prodA) = Some 2
   \<and> Orders (fst (post_orders app_js shop2 order1 0 user1 [\<lparr>productId = prodA, quantity = 5\<rparr>] None)) = Orders shop2"
proof -
  have p: "Products shop2 prodA = Some \<lparr>name = ''A'', description = '''', price = 100, stock = 2\<rparr>"
    by (simp add: shop2_def)
  have q: "stock \<lparr>name = ''A'', description = '''', price = 100, stock = 2\<rparr> = 2"
    by simp
  show ?thesis
    using p post_orders_stock_2_quantity_5 [OF p q, of app_js order1 0 user1 None]
    by simp
qed

section \<open>The invoice endpoint\<close>

lemma Order_ref_userId [simp]: "Order_ref doc ''userId'' = Undefined"
  by (simp add: Order_ref_def)

lemma cast_ObjectId_examples:
  "cast_ObjectId any12 order1 = Some order1"
  "cast_ObjectId any12 order7 = Some order7"
  "cast_ObjectId any12 order9 = Some order9"
  "cast_ObjectId any12 ''not-an-id'' = None"
  by (simp_all add: cast_ObjectId_def is_hex_def lower_hex_def)

text \<open>
  An id that is no ObjectId never reaches the handler's test: the request for the invoice
  of \<^verbatim>\<open>not-an-id\<close>, which matches no order, is not answered with 403; the handler's
  promise rejects with the CastError, under either driver.
\<close>

theorem get_invoice_malformed_id_counterexample:
  "''not-an-id'' \<notin> set (map oid (Orders shop2))
   \<and> get_invoice False shop2 ''not-an-id'' user1 = Rejected (CastError ''not-an-id'')
   \<and> get_invoice True shop2 ''not-an-id'' user1 = Rejected (CastError ''not-an-id'')
   \<and> get_invoice False shop2 ''not-an-id'' user1 \<noteq> Json 403 (Error ''Access denied'')"
  by (simp add: get_invoice_def cast_ObjectId_examples shop2_def)

text \<open>
  Claim C10, amended. A request for the invoice of an id that is an ObjectId and matches no
  order is answered with status 403 and the error \<^verbatim>\<open>Access denied\<close>, and that is
  the very response that a request for an existing order gets when the handler's ownership
  test fails; it is not a 404. A request whose id is not an ObjectId is not answered by the
  handler at all: \<^verbatim>\<open>findById\<close> rejects with a CastError.
\<close>

theorem get_invoice_missing_order:
  "(cast_ObjectId any12 i = Some k \<and> find (\<lambda>doc. oid doc = k) (Orders s) = None
      \<longrightarrow> get_invoice any12 s i uid = Json 403 (Error ''Access denied'')
          \<and> (\<forall>s' i' k' uid' doc.
                cast_ObjectId any12 i' = Some k'
                \<and> find (\<lambda>d. oid d = k') (Orders s') = Some doc
                \<and> String_js (Order_ref doc ''userId'') \<noteq> uid'
                \<longrightarrow> get_invoice any12 s' i' uid' = get_invoice any12 s i uid))
   \<and> (cast_ObjectId any12 i = None \<longrightarrow> get_invoice any12 s i uid = Rejected (CastError i))"
  by (simp add: get_invoice_def)

theorem get_invoice_missing_order_witness:
  "cast_ObjectId False order9 = Some order9
   \<and> order9 \<notin> set (map oid (Orders shop2))
   \<and> get_invoice False shop2 order9 user1 = Json 403 (Error ''Access denied'')
   \<and> cast_ObjectId False order7 = Some order7
   \<and> map oid (Orders shop2) = [order7]
   \<and> get_invoice False shop2 order7 user2 = get_invoice False shop2 order9 user1
   \<and> cast_ObjectId False ''not-an-id'' = None
   \<and> get_invoice False shop2 ''not-an-id'' user1 = Rejected (CastError ''not-an-id'')"
proof -
  have c9: "cast_ObjectId False order9 = Some order9"
    and c7: "cast_ObjectId False order7 = Some order7"
    and cn: "cast_ObjectId False ''not-an-id'' = None"
    by (rule cast_ObjectId_examples)+
  have h: "find (\<lambda>doc. oid doc = order9) (Orders shop2) = None"
    by (simp add: shop2_def)
  have m: "order9 \<notin> set (map oid (Orders shop2)) \<and> map oid (Orders shop2) = [order7]"
    by (simp add: shop2_def)
  have e: "find (\<lambda>d. oid d = order7) (Orders shop2) = Some (hd (Orders shop2))
           \<and> String_js (Order_ref (hd (Orders shop2)) ''userId'') \<noteq> user2"
    by (simp add: shop2_def)
  note t = get_invoice_missing_order [of False order9 order9 shop2 user1]
  from t c9 h
  have a: "get_invoice False shop2 order9 user1 = Json 403 (Error ''Access denied'')"
    and b: "\<forall>s' i' k' uid' doc.
               cast_ObjectId False i' = Some k'
               \<and> find (\<lambda>d. oid d = k') (Orders s') = Some doc
               \<and> String_js (Order_ref doc ''userId'') \<noteq> uid'
               \<longrightarrow> get_invoice False s' i' uid' = get_invoice False shop2 order9 user1"
    by blast+
  from b c7 e have d: "get_invoice False shop2 order7 user2 = get_invoice False shop2 order9 user1"
    by blast
  from get_invoice_missing_order [of False "''not-an-id''" k shop2 user1] cn
  have r: "get_invoice False shop2 ''not-an-id'' user1 = Rejected (CastError ''not-an-id'')"
    by blast
  from c9 c7 cn m a d r show ?thesis by blast
qed

text \<open>
  Claim C9, as the code behaves. The handler compares \<^verbatim>\<open>String(order.userId)\<close>
  with the caller's id, and \<^verbatim>\<open>userId\<close> is not a path of \<^verbatim>\<open>orderSchema\<close>
  (the owner path is \<^verbatim>\<open>user\<close>), so the left side is the string
  \<^verbatim>\<open>undefined\<close>. Every caller whose id is not that string is refused with 403 for
  every id that is an ObjectId, whether or not the order is the caller's own, and gets no
  response for any other id: no owner ever receives the PDF.
\<close>

theorem get_invoice_denied:
  assumes "uid \<noteq> ''undefined''"
  shows "get_invoice any12 s i uid =
           (case cast_ObjectId any12 i of
              None \<Rightarrow> Rejected (CastError i)
            | Some k \<Rightarrow> Json 403 (Error ''Access denied''))"
  using assms by (simp add: get_invoice_def split: option.splits)

theorem get_invoice_denied_witness:
  "user1 \<noteq> ''undefined''
   \<and> cast_ObjectId False order7 = Some order7
   \<and> map oid (Orders shop2) = [order7]
   \<and> user (hd (Orders shop2)) = Some user1
   \<and> get_invoice False shop2 order7 user1 = Json 403 (Error ''Access denied'')
   \<and> snd (post_orders app_js shop0 order1 0 user1 [item prodA 3] None)
       = Json 200 (OrderPlaced (last (Orders (fst (post_orders app_js shop0 order1 0 user1 [item prodA 3] None)))))
   \<and> oid (last (Orders (fst (post_orders app_js shop0 order1 0 user1 [item prodA 3] None)))) = order1
   \<and> cast_ObjectId False order1 = Some order1
   \<and> get_invoice False (fst (post_orders app_js shop0 order1 0 user1 [item prodA 3] None)) order1 user1
       = Json 403 (Error ''Access denied'')"
proof -
  have h: "user1 \<noteq> ''undefined''" by simp
  have c7: "cast_ObjectId False order7 = Some order7"
    and c1: "cast_ObjectId False order1 = Some order1"
    by (rule cast_ObjectId_examples)+
  have a: "map oid (Orders shop2) = [order7] \<and> user (hd (Orders shop2)) = Some user1"
    by (simp add: shop2_def)
  have b: "snd (post_orders app_js shop0 order1 0 user1 [item prodA 3] None)
       = Json 200 (OrderPlaced (last (Orders (fst (post_orders app_js shop0 order1 0 user1 [item prodA 3] None)))))
   \<and> oid (last (Orders (fst (post_orders app_js shop0 order1 0 user1 [item prodA 3] None)))) = order1"
    by (simp add: post_orders_def shop0_def item_def apply_coupon_def new_Order_def Let_def)
  from get_invoice_denied [OF h, of False shop2 order7] c7
  have d: "get_invoice False shop2 order7 user1 = Json 403 (Error ''Access denied'')"
    by simp
  from get_invoice_denied [OF h, of False "fst (post_orders app_js shop0 order1 0 user1 [item prodA 3] None)" order1] c1
  have e: "get_invoice False (fst (post_orders app_js shop0 order1 0 user1 [item prodA 3] None)) order1 user1
       = Json 403 (Error ''Access denied'')"
    by simp
  from h c7 c1 a b d e show ?thesis by blast
qed

section \<open>What a placed order has done\<close>

text \<open>
  What a call answered with status 200 has done: the loop ran to its end, the coupon step
  returned, and the document built from \<^verbatim>\<open>{userId, products, total, coupon}\<close> was
  appended to the Order store. The key \<^verbatim>\<open>userId\<close> is not a path of the schema, so
  the document's \<^verbatim>\<open>user\<close> is unset.
\<close>

lemma post_orders_200:
  assumes "post_orders scope s i now uid items cc = (s', Json 200 b)"
  shows "\<exists>s1 tot tot' cu.
           for_items s 0 items = (s1, Some tot)
           \<and> apply_coupon scope s1 cc tot = Inr (tot', cu)
           \<and> b = OrderPlaced \<lparr>oid = i, user = None, products = items, total = Some tot',
                               coupon = Some cu, createdAt = now\<rparr>
           \<and> s' = s1\<lparr>Orders := Orders s1 @ [\<lparr>oid = i, user = None, products = items,
                        total = Some tot', coupon = Some cu, createdAt = now\<rparr>],
                      trace := trace s1 @ [OrderSaved i]\<rparr>"
  using assms
  by (auto simp: post_orders_def new_Order_def Let_def split: prod.splits option.splits sum.splits)

section \<open>The owner of an order\<close>

text \<open>
  Claim C2, as the code behaves. The handler builds the order from an object whose owner
  key is \<^verbatim>\<open>userId\<close>, and \<^verbatim>\<open>orderSchema\<close> names the owner path
  \<^verbatim>\<open>user\<close>. In every call answered with \<^verbatim>\<open>Order placed\<close> the persisted
  document therefore has no owner. \<^verbatim>\<open>GET /orders\<close> filters on
  \<^verbatim>\<open>userId\<close> as well: with the condition applied as written it lists nothing, and
  with the condition dropped by \<^verbatim>\<open>strictQuery\<close> it lists the orders of every
  user.
\<close>

theorem post_orders_owner_not_stored:
  assumes "post_orders scope s i now uid items couponCode = (s', Json 200 (OrderPlaced doc))"
  shows "Orders s' = Orders s @ [doc] \<and> user doc = None
         \<and> get_orders False s' uid = Json 200 (OrderList [])
         \<and> get_orders True s' uid = Json 200 (OrderList (Orders s @ [doc]))"
proof -
  from post_orders_200 [OF assms] obtain s1 tot tot' cu where
    run: "for_items s 0 items = (s1, Some tot)" and
    doc: "doc = \<lparr>oid = i, user = None, products = items, total = Some tot',
                 coupon = Some cu, createdAt = now\<rparr>" and
    s': "s' = s1\<lparr>Orders := Orders s1 @ [doc], trace := trace s1 @ [OrderSaved i]\<rparr>"
    by auto
  from for_items_ok [OF run] have o: "Orders s1 = Orders s" by simp
  have a: "Orders s' = Orders s @ [doc]" using s' o by simp
  have b: "user doc = None" using doc by simp
  have c: "get_orders False s' uid = Json 200 (OrderList [])"
    by (simp add: get_orders_def)
  have d: "get_orders True s' uid = Json 200 (OrderList (Orders s @ [doc]))"
    using a by (simp add: get_orders_def)
  from a b c d show ?thesis by simp
qed

theorem post_orders_owner_not_stored_witness:
  "post_orders app_js shop0 order1 0 user1 [item prodA 3] None
     = (fst (post_orders app_js shop0 order1 0 user1 [item prodA 3] None),
        Json 200 (OrderPlaced \<lparr>oid = order1, user = None, products = [item prodA 3],
                    total = Some 300, coupon = Some '''', createdAt = 0\<rparr>))
   \<and> Orders (fst (post_orders app_js shop0 order1 0 user1 [item prodA 3] None))
       = [\<lparr>oid = order1, user = None, products = [item prodA 3],
            total = Some 300, coupon = Some '''', createdAt = 0\<rparr>]
   \<and> get_orders False (fst (post_orders app_js shop0 order1 0 user1 [item prodA 3] None)) user1
       = Json 200 (OrderList [])"
proof -
  have a: "post_orders app_js shop0 order1 0 user1 [item prodA 3] None
     = (fst (post_orders app_js shop0 order1 0 user1 [item prodA 3] None),
        Json 200 (OrderPlaced \<lparr>oid = order1, user = None, products = [item prodA 3],
                    total = Some 300, coupon = Some '''', createdAt = 0\<rparr>))"
    by (simp add: post_orders_def shop0_def item_def apply_coupon_def new_Order_def Let_def)
  have o: "Orders shop0 = []" by (simp add: shop0_def)
  show ?thesis
    using a o post_orders_owner_not_stored [OF a]
    by simp
qed

section \<open>The coupon step\<close>

text \<open>
  Claim C6, as the code behaves. \<^verbatim>\<open>app.js\<close> never binds \<^verbatim>\<open>Coupon\<close>, so a
  call that supplies a non-empty coupon code, and whose line items all pass, throws a
  ReferenceError at \<^verbatim>\<open>Coupon.findOne\<close>: the stock has been decremented, no
  Order is persisted and no response is sent, whether or not the code names a coupon.
\<close>

theorem post_orders_coupon_code_throws:
  assumes "cc \<noteq> ''''" and "for_items s 0 items = (s1, Some tot)"
  shows "post_orders app_js s i now uid items (Some cc) = (s1, Rejected (ReferenceError ''Coupon''))
         \<and> Orders s1 = Orders s"
proof -
  have "apply_coupon app_js s1 (Some cc) tot = Inl (ReferenceError ''Coupon'')"
    using assms(1) by (simp add: apply_coupon_def app_js_def)
  with assms(2) have "post_orders app_js s i now uid items (Some cc) = (s1, Rejected (ReferenceError ''Coupon''))"
    by (simp add: post_orders_def)
  moreover from for_items_ok [OF assms(2)] have "Orders s1 = Orders s" by simp
  ultimately show ?thesis by simp
qed

theorem post_orders_coupon_code_throws_witness:
  "''NOPE'' \<noteq> ''''
   \<and> find (\<lambda>c. code c = ''NOPE'') (Coupons shop0) = None
   \<and> snd (for_items shop0 0 [item prodA 3]) = Some 300
   \<and> snd (post_orders app_js shop0 order1 0 user1 [item prodA 3] (Some ''NOPE''))
       = Rejected (ReferenceError ''Coupon'')
   \<and> Orders (fst (post_orders app_js shop0 order1 0 user1 [item prodA 3] (Some ''NOPE''))) = []
   \<and> map_option stock (Products (fst (post_orders app_js shop0 order1 0 user1 [item prodA 3] (Some ''NOPE''))) prodA)
       = Some 2"
proof -
  have h: "''NOPE'' \<noteq> ''''" by simp
  have f: "find (\<lambda>c. code c = ''NOPE'') (Coupons shop0) = None"
    by (simp add: shop0_def)
  have r: "for_items shop0 0 [item prodA 3] = (fst (for_items shop0 0 [item prodA 3]), Some 300)"
    by (simp add: shop0_def item_def Let_def)
  have st: "map_option stock (Products (fst (for_items shop0 0 [item prodA 3])) prodA) = Some 2"
    by (simp add: shop0_def item_def Let_def)
  have o: "Orders shop0 = []" by (simp add: shop0_def)
  from post_orders_coupon_code_throws [OF h r, of order1 0 user1]
  have p: "post_orders app_js shop0 order1 0 user1 [item prodA 3] (Some ''NOPE'')
             = (fst (for_items shop0 0 [item prodA 3]), Rejected (ReferenceError ''Coupon''))"
    and q: "Orders (fst (for_items shop0 0 [item prodA 3])) = Orders shop0"
    by simp_all
  have r': "snd (for_items shop0 0 [item prodA 3]) = Some 300"
    using r by (metis snd_conv)
  show ?thesis
    unfolding p using h f r' st q o by simp
qed

text \<open>
  Where \<^verbatim>\<open>Coupon\<close> is bound, the same handler lets an unknown code through: the
  order is placed with the undiscounted total and an empty coupon field.
\<close>

lemma post_orders_unknown_code_where_bound:
  assumes "''Coupon'' \<in> set scope" and "cc \<noteq> ''''"
    and "find (\<lambda>c. code c = cc) (Coupons s) = None"
    and "for_items s 0 items = (s1, Some tot)"
  shows "snd (post_orders scope s i now uid items (Some cc))
           = Json 200 (OrderPlaced \<lparr>oid = i, user = None, products = items, total = Some tot,
                                    coupon = Some '''', createdAt = now\<rparr>)"
proof -
  from for_items_ok [OF assms(4)] have "Coupons s1 = Coupons s" by simp
  with assms(1-3) have "apply_coupon scope s1 (Some cc) tot = Inr (tot, '''')"
    by (simp add: apply_coupon_def)
  with assms(4) show ?thesis
    by (simp add: post_orders_def new_Order_def Let_def)
qed

section \<open>A line item that fails the stock check\<close>




section \<open>Stock-update notifications\<close>




section \<open>Line items that are empty or not positive\<close>

text \<open>
  The handler has no check of the line-item list or of the sign of a quantity. An empty
  order is placed with total 0; an order of \<open>-3\<close> units of product A (stock 5, price
  100) is placed with total \<open>-300\<close> and raises the stock to 8.
\<close>

theorem post_orders_invalid_line_items_counterexample:
  "post_orders app_js shop0 order1 0 user1 [] None
     = (shop0\<lparr>Orders := [\<lparr>oid = order1, user = None, products = [], total = Some 0,
                            coupon = Some '''', createdAt = 0\<rparr>],
              trace := [OrderSaved order1]\<rparr>,
        Json 200 (OrderPlaced \<lparr>oid = order1, user = None, products = [], total = Some 0,
                               coupon = Some '''', createdAt = 0\<rparr>))
   \<and> snd (post_orders app_js shop0 order2 0 user1 [item prodA (- 3)] None)
       = Json 200 (OrderPlaced \<lparr>oid = order2, user = None, products = [item prodA (- 3)],
                                 total = Some (- 300), coupon = Some '''', createdAt = 0\<rparr>)
   \<and> map_option stock
        (Products (fst (post_orders app_js shop0 order2 0 user1 [item prodA (- 3)] None)) prodA)
       = Some 8"
  by (simp add: post_orders_def shop0_def item_def apply_coupon_def new_Order_def Let_def)

text \<open>
  Claim C7, amended. A call with an empty line-item list and no coupon code succeeds: an
  Order with no line items and total 0 is persisted and no stock changes. A line item whose
  quantity is not positive is not refused for it: when its product exists with non-negative
  stock it passes the stock check, its quantity is subtracted from the stock (which
  therefore does not fall), a notification is emitted, price times quantity is added to the
  total, and the loop goes on to the next line item.
\<close>

theorem post_orders_no_line_item_validation:
  "post_orders scope s i now uid [] None
     = (s\<lparr>Orders := Orders s @ [\<lparr>oid = i, user = None, products = [], total = Some 0,
                                   coupon = Some '''', createdAt = now\<rparr>],
          trace := trace s @ [OrderSaved i]\<rparr>,
        Json 200 (OrderPlaced \<lparr>oid = i, user = None, products = [], total = Some 0,
                               coupon = Some '''', createdAt = now\<rparr>))
   \<and> (Products s (productId it) = Some prd \<and> 0 \<le> stock prd \<and> quantity it \<le> 0
        \<longrightarrow> for_items s tot (it # rest)
              = for_items
                  (s\<lparr>Products := (Products s)(productId it \<mapsto> prd\<lparr>stock := stock prd - quantity it\<rparr>),
                     trace := trace s @ [StockUpdate (productId it) (stock prd - quantity it)]\<rparr>)
                  (tot + price prd * of_int (quantity it)) rest
            \<and> stock prd \<le> stock prd - quantity it)"
  by (simp add: post_orders_def apply_coupon_def new_Order_def Let_def)

theorem post_orders_no_line_item_validation_witness:
  "snd (post_orders app_js shop0 order1 0 user1 [] None)
     = Json 200 (OrderPlaced \<lparr>oid = order1, user = None, products = [], total = Some 0,
                               coupon = Some '''', createdAt = 0\<rparr>)
   \<and> Products shop0 (productId (item prodA (- 3)))
       = Some \<lparr>name = ''A'', description = '''', price = 100, stock = 5\<rparr>
   \<and> quantity (item prodA (- 3)) \<le> 0
   \<and> snd (for_items shop0 0 (item prodA (- 3) # [])) = Some (- 300)
   \<and> map_option stock (Products (fst (for_items shop0 0 (item prodA (- 3) # []))) prodA) = Some 8"
proof -
  have p: "Products shop0 (productId (item prodA (- 3)))
             = Some \<lparr>name = ''A'', description = '''', price = 100, stock = 5\<rparr>"
    by (simp add: shop0_def item_def)
  have q: "quantity (item prodA (- 3)) \<le> 0 \<and> quantity (item prodA (- 3)) = - 3
           \<and> productId (item prodA (- 3)) = prodA"
    by (simp add: item_def)
  have n: "(0::int) \<le> stock \<lparr>name = ''A'', description = '''', price = 100, stock = 5\<rparr>"
    by simp
  note t = post_orders_no_line_item_validation
    [of app_js shop0 order1 0 user1 "item prodA (- 3)"
        "\<lparr>name = ''A'', description = '''', price = 100, stock = 5\<rparr>" 0 "[]"]
  from t have a: "snd (post_orders app_js shop0 order1 0 user1 [] None)
     = Json 200 (OrderPlaced \<lparr>oid = order1, user = None, products = [], total = Some 0,
                               coupon = Some '''', createdAt = 0\<rparr>)"
    by simp
  from t p q n have b: "for_items shop0 0 (item prodA (- 3) # [])
     = for_items
         (shop0\<lparr>Products := (Products shop0)(prodA \<mapsto> \<lparr>name = ''A'', description = '''', price = 100, stock = 8\<rparr>),
                trace := trace shop0 @ [StockUpdate prodA 8]\<rparr>)
         (- 300) []"
    by simp
  have c: "snd (for_items shop0 0 (item prodA (- 3) # [])) = Some (- 300)
           \<and> map_option stock (Products (fst (for_items shop0 0 (item prodA (- 3) # []))) prodA) = Some 8"
    unfolding b by simp
  from a p q c show ?thesis by blast
qed

section \<open>The stock invariant\<close>

text \<open>
  The invariant depends on the catalog alone; it survives the update of one product to a
  record with non-negative stock, hence each iteration of the loop, and the handlers built
  on them.
\<close>

lemma stock_nonneg_Products:
  "Products a = Products b \<Longrightarrow> stock_nonneg a = stock_nonneg b"
  by (simp add: stock_nonneg_def)

lemma stock_nonneg_update:
  "stock_nonneg s \<Longrightarrow> 0 \<le> stock prd \<Longrightarrow> Products s' = (Products s)(p \<mapsto> prd) \<Longrightarrow> stock_nonneg s'"
  by (auto simp: stock_nonneg_def split: if_splits)

lemma for_items_stock_nonneg:
  "stock_nonneg s \<Longrightarrow> stock_nonneg (fst (for_items s t items))"
proof (induction items arbitrary: s t)
  case Nil
  then show ?case by simp
next
  case (Cons it items)
  show ?case
  proof (cases "Products s (productId it)")
    case None
    with Cons.prems show ?thesis by simp
  next
    case (Some prd)
    show ?thesis
    proof (cases "stock prd < quantity it")
      case True
      with Some Cons.prems show ?thesis by simp
    next
      case False
      let ?s2 = "s\<lparr>Products := (Products s)(productId it \<mapsto> prd\<lparr>stock := stock prd - quantity it\<rparr>),
               trace := trace s @ [StockUpdate (productId it) (stock prd - quantity it)]\<rparr>"
      have "stock_nonneg ?s2"
        using Cons.prems False
        by (intro stock_nonneg_update [of s "prd\<lparr>stock := stock prd - quantity it\<rparr>" ?s2 "productId it"])
           simp_all
      from Cons.IH [OF this] Some False show ?thesis
        by (simp add: Let_def)
    qed
  qed
qed

lemma post_orders_Products:
  "Products (fst (post_orders scope s i now uid items couponCode)) = Products (fst (for_items s 0 items))"
  by (simp add: post_orders_def Let_def split: prod.splits option.splits sum.splits)

lemma post_orders_stock_nonneg:
  assumes "stock_nonneg s"
  shows "stock_nonneg (fst (post_orders scope s i now uid items couponCode))"
proof -
  have "stock_nonneg (fst (for_items s 0 items))"
    using assms by (rule for_items_stock_nonneg)
  then show ?thesis
    by (simp only: stock_nonneg_Products [OF post_orders_Products])
qed

lemma put_product_stock_nonneg:
  assumes "stock_nonneg s" and v: "0 \<le> v"
  shows "stock_nonneg (fst (put_product_stock s a v))"
proof (cases "Products s a")
  case None
  with assms show ?thesis by (simp add: put_product_stock_def)
next
  case (Some prd)
  have p: "Products (fst (put_product_stock s a v)) = (Products s)(a \<mapsto> prd\<lparr>stock := v\<rparr>)"
    using Some by (simp add: put_product_stock_def Let_def)
  have q: "0 \<le> stock (prd\<lparr>stock := v\<rparr>)" using v by simp
  from assms(1) q p show ?thesis by (rule stock_nonneg_update)
qed

lemma put_product_stock_negative:
  assumes h: "v < 0" and "Products s a \<noteq> None"
  shows "\<not> stock_nonneg (fst (put_product_stock s a v))"
proof -
  from assms obtain prd where prd: "Products s a = Some prd" by blast
  then have "Products (fst (put_product_stock s a v)) a = Some (prd\<lparr>stock := v\<rparr>)"
    by (simp add: put_product_stock_def Let_def)
  moreover have "\<not> 0 \<le> stock (prd\<lparr>stock := v\<rparr>)" using h by simp
  ultimately show "\<not> stock_nonneg (fst (put_product_stock s a v))"
    unfolding stock_nonneg_def by blast
qed

text \<open>
  \<^verbatim>\<open>PUT /products/:id/stock\<close> stores the value it is given: setting the stock of
  product A to \<open>-5\<close> is answered with status 200 and leaves the stock at \<open>-5\<close>.
\<close>

theorem put_product_stock_negative_counterexample:
  "stock_nonneg shop0
   \<and> snd (put_product_stock shop0 prodA (- 5))
       = Json 200 (ProductBody \<lparr>name = ''A'', description = '''', price = 100, stock = - 5\<rparr>)
   \<and> map_option stock (Products (fst (put_product_stock shop0 prodA (- 5))) prodA) = Some (- 5)
   \<and> \<not> stock_nonneg (fst (put_product_stock shop0 prodA (- 5)))"
proof -
  have a: "stock_nonneg shop0"
    by (auto simp: stock_nonneg_def shop0_def split: if_splits)
  have b: "snd (put_product_stock shop0 prodA (- 5))
       = Json 200 (ProductBody \<lparr>name = ''A'', description = '''', price = 100, stock = - 5\<rparr>)"
    by (simp add: put_product_stock_def shop0_def Let_def)
  have c: "Products (fst (put_product_stock shop0 prodA (- 5))) prodA
             = Some \<lparr>name = ''A'', description = '''', price = 100, stock = - 5\<rparr>"
    by (simp add: put_product_stock_def shop0_def Let_def)
  have d: "\<not> stock_nonneg (fst (put_product_stock shop0 prodA (- 5)))"
  proof
    assume "stock_nonneg (fst (put_product_stock shop0 prodA (- 5)))"
    with c have "(0::int) \<le> stock \<lparr>name = ''A'', description = '''', price = 100, stock = - 5\<rparr>"
      unfolding stock_nonneg_def by blast
    then show False by simp
  qed
  from a b c d show ?thesis by simp
qed

text \<open>
  Claim C4, amended. If no product has negative stock, then none has after a call of
  \<^verbatim>\<open>POST /orders\<close>, whatever its outcome. \<^verbatim>\<open>PUT /products/:id/stock\<close>
  has no floor: it keeps the invariant when the value it is given is not negative, and
  breaks it when the value is negative and the product exists.
\<close>

theorem stock_nonneg_preserved:
  assumes "stock_nonneg s"
  shows "stock_nonneg (fst (post_orders scope s i now uid items couponCode))
         \<and> (0 \<le> v \<longrightarrow> stock_nonneg (fst (put_product_stock s a v)))
         \<and> (v < 0 \<and> Products s a \<noteq> None \<longrightarrow> \<not> stock_nonneg (fst (put_product_stock s a v)))"
proof (intro conjI impI)
  show "stock_nonneg (fst (post_orders scope s i now uid items couponCode))"
    using assms by (rule post_orders_stock_nonneg)
next
  assume "0 \<le> v"
  with assms show "stock_nonneg (fst (put_product_stock s a v))"
    by (rule put_product_stock_nonneg)
next
  assume "v < 0 \<and> Products s a \<noteq> None"
  then have "v < 0" and "Products s a \<noteq> None" by simp_all
  then show "\<not> stock_nonneg (fst (put_product_stock s a v))"
    by (rule put_product_stock_negative)
qed

theorem stock_nonneg_preserved_witness:
  "stock_nonneg shop0
   \<and> stock_nonneg (fst (post_orders app_js shop0 order1 0 user1 [item prodA 3, item prodA 2] None))
   \<and> map_option stock
        (Products (fst (post_orders app_js shop0 order1 0 user1 [item prodA 3, item prodA 2] None)) prodA)
       = Some 0
   \<and> (0::int) \<le> 7 \<and> stock_nonneg (fst (put_product_stock shop0 prodA 7))
   \<and> (- 5 :: int) < 0 \<and> Products shop0 prodA \<noteq> None
   \<and> \<not> stock_nonneg (fst (put_product_stock shop0 prodA (- 5)))"
proof -
  have a: "stock_nonneg shop0"
    by (auto simp: stock_nonneg_def shop0_def split: if_splits)
  have b: "map_option stock
        (Products (fst (post_orders app_js shop0 order1 0 user1 [item prodA 3, item prodA 2] None)) prodA)
       = Some 0"
    by (simp add: post_orders_def shop0_def item_def apply_coupon_def new_Order_def Let_def)
  have c: "Products shop0 prodA \<noteq> None" by (simp add: shop0_def)
  note t1 = stock_nonneg_preserved [OF a, of app_js order1 0 user1 "[item prodA 3, item prodA 2]" None 7 prodA]
  note t2 = stock_nonneg_preserved [OF a, of app_js order1 0 user1 "[item prodA 3, item prodA 2]" None "- 5" prodA]
  from t1 have d: "stock_nonneg (fst (post_orders app_js shop0 order1 0 user1 [item prodA 3, item prodA 2] None))"
    by (rule conjunct1)
  from t1 have e: "stock_nonneg (fst (put_product_stock shop0 prodA 7))"
    by simp
  from t2 c have f: "\<not> stock_nonneg (fst (put_product_stock shop0 prodA (- 5)))"
    by simp
  from a b c d e f show ?thesis by simp
qed

end
